theory Spec2Isabelle
  imports Complex_Main "HOL-Library.AList"
begin

section \<open>JavaScript values as the program uses them\<close>

text \<open>
  The program is \<^verbatim>\<open>src/script.js\<close>: the classes \<^verbatim>\<open>Workout\<close>, \<^verbatim>\<open>Running\<close>,
  \<^verbatim>\<open>Cycling\<close> and \<^verbatim>\<open>App\<close>.

  A JavaScript number is NaN, one of the two infinities, or a finite double. A finite
  double is represented by the real number it denotes: rounding, overflow of an
  arithmetic result and the sign of zero are not modelled. The quotient of two finite
  numbers by a divisor other than zero is finite here; the round trip through JSON
  (claim C4) assumes that the numbers it writes are finite instead of deriving it.
\<close>

datatype number = NaN | PosInf | NegInf | Fin real

text \<open>\<^verbatim>\<open>Number.isFinite(inp)\<close> for a value that is a number.\<close>

fun isFinite :: "number \<Rightarrow> bool" where
  "isFinite (Fin r) = True"
| "isFinite NaN = False"
| "isFinite PosInf = False"
| "isFinite NegInf = False"

text \<open>\<^verbatim>\<open>inp > 0\<close>: every comparison with NaN is false.\<close>

fun gt0 :: "number \<Rightarrow> bool" where
  "gt0 (Fin r) = (0 < r)"
| "gt0 PosInf = True"
| "gt0 NegInf = False"
| "gt0 NaN = False"

text \<open>The operator \<^verbatim>\<open>/\<close> on numbers (zero is the positive zero).\<close>

fun js_div :: "number \<Rightarrow> number \<Rightarrow> number" where
  "js_div NaN y = NaN"
| "js_div x NaN = NaN"
| "js_div (Fin a) (Fin b) =
     (if b = 0 then (if a = 0 then NaN else if 0 < a then PosInf else NegInf)
      else Fin (a / b))"
| "js_div (Fin a) PosInf = Fin 0"
| "js_div (Fin a) NegInf = Fin 0"
| "js_div PosInf (Fin b) = (if 0 \<le> b then PosInf else NegInf)"
| "js_div NegInf (Fin b) = (if 0 \<le> b then NegInf else PosInf)"
| "js_div PosInf PosInf = NaN"
| "js_div PosInf NegInf = NaN"
| "js_div NegInf PosInf = NaN"
| "js_div NegInf NegInf = NaN"

text \<open>
  A \<^verbatim>\<open>Date\<close> object, observed through the methods that the program and
  \<^verbatim>\<open>JSON.stringify\<close> call on it. What they return depends on the host's calendar
  and time zone, so the results come with the object: \<open>getMonth\<close> is in 0..11.
\<close>

record date =
  getTime :: int
  getMonth :: nat
  getDate :: nat
  toISOString :: string

text \<open>
  The values the program holds. An object is the list of its own properties in creation
  order, which is the order \<^verbatim>\<open>JSON.stringify\<close> writes them in. The class of an
  object is not recorded: the program calls no method on a workout after constructing it.
\<close>

datatype jsval =
    Undefined
  | Null
  | Bool bool
  | Num number
  | Str string
  | DateV date
  | Arr "jsval list"
  | Obj "(string \<times> jsval) list"

text \<open>
  Reading a property \<^verbatim>\<open>v.k\<close> of a value that is neither \<^verbatim>\<open>undefined\<close> nor
  \<^verbatim>\<open>null\<close> (on those two the read throws, see \<open>nullish\<close>). The program reads
  only the keys \<^verbatim>\<open>type\<close>, \<^verbatim>\<open>id\<close>, \<^verbatim>\<open>coordinates\<close>, \<^verbatim>\<open>distance\<close>,
  \<^verbatim>\<open>duration\<close>, \<^verbatim>\<open>description\<close>, \<^verbatim>\<open>pace\<close>, \<^verbatim>\<open>speed\<close>, \<^verbatim>\<open>cadence\<close>
  and \<^verbatim>\<open>elevation\<close>, none of which a built-in prototype defines, so a value without
  the own property yields \<^verbatim>\<open>undefined\<close>.
\<close>

fun get_prop :: "jsval \<Rightarrow> string \<Rightarrow> jsval" where
  "get_prop (Obj kvs) k = (case map_of kvs k of Some v \<Rightarrow> v | None \<Rightarrow> Undefined)"
| "get_prop v k = Undefined"

fun nullish :: "jsval \<Rightarrow> bool" where
  "nullish Undefined = True"
| "nullish Null = True"
| "nullish v = False"

text \<open>The conversion to boolean of \<^verbatim>\<open>!data\<close>.\<close>

fun truthy :: "jsval \<Rightarrow> bool" where
  "truthy Undefined = False"
| "truthy Null = False"
| "truthy (Bool b) = b"
| "truthy (Num n) = (case n of Fin r \<Rightarrow> r \<noteq> 0 | NaN \<Rightarrow> False | _ \<Rightarrow> True)"
| "truthy (Str s) = (s \<noteq> [])"
| "truthy v = True"

section \<open>JSON\<close>

text \<open>
  A JSON document. The text that \<^verbatim>\<open>JSON.stringify\<close> writes has no white space and
  lists members in order, so it is determined by the document; the stored string is
  represented by the document it denotes.
\<close>

datatype json =
    JNull
  | JBool bool
  | JNumber real
  | JString string
  | JArray "json list"
  | JObject "(string \<times> json) list"

text \<open>
  \<^verbatim>\<open>JSON.stringify\<close>, after the language's SerializeJSONProperty: a \<^verbatim>\<open>Date\<close> is
  written as its \<^verbatim>\<open>toISOString()\<close>, a number that is not finite as \<^verbatim>\<open>null\<close>,
  \<^verbatim>\<open>undefined\<close> as \<^verbatim>\<open>null\<close> inside an array, and a property whose value is
  \<^verbatim>\<open>undefined\<close> is left out of its object.
\<close>

fun serialize :: "jsval \<Rightarrow> json"
  and serialize_members :: "(string \<times> jsval) list \<Rightarrow> (string \<times> json) list" where
  "serialize Undefined = JNull"
| "serialize Null = JNull"
| "serialize (Bool b) = JBool b"
| "serialize (Num n) = (case n of Fin r \<Rightarrow> JNumber r | _ \<Rightarrow> JNull)"
| "serialize (Str s) = JString s"
| "serialize (DateV d) = JString (toISOString d)"
| "serialize (Arr xs) = JArray (map serialize xs)"
| "serialize (Obj kvs) = JObject (serialize_members kvs)"
| "serialize_members [] = []"
| "serialize_members ((k, v) # kvs) =
     (if v = Undefined then serialize_members kvs
      else (k, serialize v) # serialize_members kvs)"

text \<open>At the top, \<^verbatim>\<open>JSON.stringify(undefined)\<close> is \<^verbatim>\<open>undefined\<close>: no document.\<close>

definition JSON_stringify :: "jsval \<Rightarrow> json option" where
  "JSON_stringify v = (if v = Undefined then None else Some (serialize v))"

text \<open>
  \<^verbatim>\<open>JSON.parse\<close> on a document. The members of an object are defined in order, and a
  member whose name came before replaces the earlier value in its place
  (\<open>AList.update\<close>). Member names that are array indices, which the language lists
  first, do not occur in what the program writes and are not reordered here.
\<close>

definition define_members :: "(string \<times> jsval) list \<Rightarrow> (string \<times> jsval) list" where
  "define_members kvs = foldl (\<lambda>ob kv. AList.update (fst kv) (snd kv) ob) [] kvs"

primrec JSON_parse :: "json \<Rightarrow> jsval" where
  "JSON_parse JNull = Null"
| "JSON_parse (JBool b) = Bool b"
| "JSON_parse (JNumber r) = Num (Fin r)"
| "JSON_parse (JString s) = Str s"
| "JSON_parse (JArray js) = Arr (map JSON_parse js)"
| "JSON_parse (JObject kvs) = Obj (define_members (map (map_prod id JSON_parse) kvs))"

section \<open>Strings of digits\<close>

text \<open>
  \<^verbatim>\<open>toString()\<close> of a number that is an integer below \<open>10^21\<close> in size, as
  \<^verbatim>\<open>Date.now()\<close> and \<^verbatim>\<open>getDate()\<close> are: its decimal digits, with a minus sign
  when negative.
\<close>

definition digit :: "nat \<Rightarrow> char" where
  "digit d = ''0123456789'' ! d"

fun decimal :: "nat \<Rightarrow> string" where
  "decimal n = (if n < 10 then [digit n] else decimal (n div 10) @ [digit (n mod 10)])"

declare decimal.simps [simp del]

definition toString_int :: "int \<Rightarrow> string" where
  "toString_int i = (if i < 0 then CHR ''-'' # decimal (nat (- i)) else decimal (nat i))"

text \<open>\<^verbatim>\<open>s.slice(-10)\<close>: the last ten characters, the whole string when it is shorter.\<close>

definition slice_last10 :: "string \<Rightarrow> string" where
  "slice_last10 s = drop (length s - 10) s"

section \<open>The classes Workout, Running and Cycling\<close>

text \<open>
  The field initialisers \<^verbatim>\<open>date = new Date()\<close> and
  \<^verbatim>\<open>id = Date.now().toString().slice(-10)\<close> read the clock twice: \<open>d\<close> is the
  \<^verbatim>\<open>Date\<close> of the first reading and \<open>now\<close> the milliseconds of the second.
  \<open>Workout\<close> gives the properties an object has when the constructor of
  \<^verbatim>\<open>Workout\<close> returns.
\<close>

definition Workout :: "date \<Rightarrow> int \<Rightarrow> jsval \<Rightarrow> number \<Rightarrow> number \<Rightarrow> (string \<times> jsval) list" where
  "Workout d now coordinates distance duration =
     [(''date'', DateV d),
      (''id'', Str (slice_last10 (toString_int now))),
      (''coordinates'', coordinates),
      (''distance'', Num distance),
      (''duration'', Num duration)]"

definition months :: "string list" where
  "months = [''January'', ''February'', ''March'', ''April'', ''May'', ''June'', ''July'',
     ''August'', ''September'', ''October'', ''November'', ''December'']"

text \<open>\<^verbatim>\<open>toUpperCase()\<close> of a character of the two class names (ASCII letters).\<close>

definition toUpperCase :: "char \<Rightarrow> char" where
  "toUpperCase c =
     (if 97 \<le> (of_char c :: nat) \<and> (of_char c :: nat) \<le> 122
      then char_of ((of_char c :: nat) - 32) else c)"

text \<open>
  \<^verbatim>\<open>_setDescription\<close>: \<open>type\<close> is \<^verbatim>\<open>this.type\<close>, one of the two class literals and
  so never empty; \<^verbatim>\<open>months[m]\<close> outside the array is \<^verbatim>\<open>undefined\<close>.
\<close>

definition setDescription :: "string \<Rightarrow> date \<Rightarrow> string" where
  "setDescription type d =
     (case type of [] \<Rightarrow> [] | c # cs \<Rightarrow> toUpperCase c # cs) @ '' on '' @
     (if getMonth d < length months then months ! getMonth d else ''undefined'') @ '' '' @
     decimal (getDate d)"

text \<open>
  \<^verbatim>\<open>calcPace\<close> and \<^verbatim>\<open>calcSpeed\<close> read \<^verbatim>\<open>this.duration\<close> and
  \<^verbatim>\<open>this.distance\<close>, which the constructor has just set from its arguments.
\<close>

definition calcPace :: "number \<Rightarrow> number \<Rightarrow> number" where
  "calcPace duration distance = js_div duration distance"

definition calcSpeed :: "number \<Rightarrow> number \<Rightarrow> number" where
  "calcSpeed duration distance = js_div distance (js_div duration (Fin 60))"

text \<open>
  \<^verbatim>\<open>new Running(coordinates, distance, duration, cadence)\<close>: the properties in the
  order they are created, those of \<^verbatim>\<open>super(...)\<close> first, then the field
  \<^verbatim>\<open>type\<close>, then the assignments of the constructor's body.
\<close>

definition Running :: "date \<Rightarrow> int \<Rightarrow> jsval \<Rightarrow> number \<Rightarrow> number \<Rightarrow> number \<Rightarrow> jsval" where
  "Running d now coordinates distance duration cadence =
     Obj (Workout d now coordinates distance duration @
       [(''type'', Str ''running''),
        (''cadence'', Num cadence),
        (''pace'', Num (calcPace duration distance)),
        (''description'', Str (setDescription ''running'' d))])"

definition Cycling :: "date \<Rightarrow> int \<Rightarrow> jsval \<Rightarrow> number \<Rightarrow> number \<Rightarrow> number \<Rightarrow> jsval" where
  "Cycling d now coordinates distance duration elevation =
     Obj (Workout d now coordinates distance duration @
       [(''type'', Str ''cycling''),
        (''elevation'', Num elevation),
        (''speed'', Num (calcSpeed duration distance)),
        (''description'', Str (setDescription ''cycling'' d))])"

section \<open>The application state\<close>

text \<open>
  What the map library holds for the program: the view that \<^verbatim>\<open>setView\<close> was last
  asked for and the workouts a marker was requested for, oldest first. The model records
  the requests; what the library does with a coordinate it cannot read is not modelled.
\<close>

record leaflet =
  center :: jsval
  zoom :: nat
  markers :: "jsval list"

text \<open>The \<^verbatim>\<open>latlng\<close> of a click event of the map.\<close>

record latlng =
  lat :: number
  lng :: number

text \<open>
  A string kept in \<^verbatim>\<open>localStorage\<close>: a JSON text, as the document it denotes, or any
  other string, on which \<^verbatim>\<open>JSON.parse\<close> throws.
\<close>

datatype item = Json json | Raw string

text \<open>
  The private fields of \<^verbatim>\<open>App\<close> (\<open>map'\<close> is \<^verbatim>\<open>#map\<close>, \<open>None\<close> is
  \<^verbatim>\<open>undefined\<close>), then the page: the \<^verbatim>\<open>value\<close> of the five inputs, whether the
  form has the class \<^verbatim>\<open>hidden\<close>, the workouts of the list items after the form (the
  first is the nearest to the form), the messages shown by \<^verbatim>\<open>alert\<close> and the storage.
  \<^verbatim>\<open>#workouts\<close> is any value: \<^verbatim>\<open>_getLocalStorage\<close> assigns what it parsed.
  The focus, the style of the form and the rows that \<^verbatim>\<open>_toggleElevationField\<close>
  shows and hides are presentation only and left out.
\<close>

record app =
  map' :: "leaflet option"
  mapEvent :: "latlng option"
  workouts :: jsval
  inputType :: string
  inputDistance :: string
  inputDuration :: string
  inputCadence :: string
  inputElevation :: string
  form_hidden :: bool
  list_items :: "jsval list"
  alerts :: "string list"
  localStorage :: "string \<rightharpoonup> item"

text \<open>\<^verbatim>\<open>#mapZoomLevel = 13\<close> is never assigned again.\<close>

definition mapZoomLevel :: nat where
  "mapZoomLevel = 13"

text \<open>
  How a method ends: it returns, or an exception leaves it; either way with the state
  it has reached. An exception in an event listener is reported by the browser and the
  application goes on from that state.
\<close>

datatype js_error = TypeError | SyntaxError

datatype completion = Done (state_of: app) | Threw (error_of: js_error) (state_of: app)

definition andThen :: "completion \<Rightarrow> (app \<Rightarrow> completion) \<Rightarrow> completion" where
  "andThen c f = (case c of Done s \<Rightarrow> f s | Threw e s \<Rightarrow> Threw e s)"

text \<open>\<^verbatim>\<open>xs.forEach(f)\<close>: an exception in \<open>f\<close> ends the loop.\<close>

fun forEach :: "(jsval \<Rightarrow> app \<Rightarrow> completion) \<Rightarrow> jsval list \<Rightarrow> app \<Rightarrow> completion" where
  "forEach f [] s = Done s"
| "forEach f (x # xs) s = andThen (f x s) (forEach f xs)"

section \<open>The methods of App\<close>

text \<open>
  \<^verbatim>\<open>_renderWorkout\<close>. Reading \<^verbatim>\<open>workout.type\<close> throws on \<^verbatim>\<open>undefined\<close> and
  \<^verbatim>\<open>null\<close>; \<^verbatim>\<open>workout.pace.toFixed(1)\<close> throws unless the pace is a number, and
  so for the speed. The list item is inserted right after the form.
\<close>

fun has_toFixed :: "jsval \<Rightarrow> bool" where
  "has_toFixed (Num n) = True"
| "has_toFixed v = False"

definition renderWorkout :: "jsval \<Rightarrow> app \<Rightarrow> completion" where
  "renderWorkout workout s =
     (if nullish workout then Threw TypeError s
      else if get_prop workout ''type'' = Str ''running''
              \<and> \<not> has_toFixed (get_prop workout ''pace'') then Threw TypeError s
      else if get_prop workout ''type'' = Str ''cycling''
              \<and> \<not> has_toFixed (get_prop workout ''speed'') then Threw TypeError s
      else Done (s\<lparr>list_items := workout # list_items s\<rparr>))"

text \<open>
  \<^verbatim>\<open>_renderWorkoutMarker\<close>: \<^verbatim>\<open>L.marker(workout.coordinates, ...)\<close> reads a
  property of the workout, and \<^verbatim>\<open>addTo(this.#map)\<close> needs the map.
\<close>

definition renderWorkoutMarker :: "jsval \<Rightarrow> app \<Rightarrow> completion" where
  "renderWorkoutMarker workout s =
     (if nullish workout then Threw TypeError s
      else case map' s of
        None \<Rightarrow> Threw TypeError s
      | Some m \<Rightarrow> Done (s\<lparr>map' := Some (m\<lparr>markers := markers m @ [workout]\<rparr>)\<rparr>))"

text \<open>\<^verbatim>\<open>_loadMap(position)\<close>, with the latitude and longitude of the position.\<close>

definition loadMap :: "number \<Rightarrow> number \<Rightarrow> app \<Rightarrow> completion" where
  "loadMap latitude longitude s =
     (let s1 = s\<lparr>map' := Some \<lparr>center = Arr [Num latitude, Num longitude],
                                  zoom = mapZoomLevel, markers = []\<rparr>\<rparr>
      in case workouts s1 of
           Arr ws \<Rightarrow> forEach renderWorkoutMarker ws s1
         | _ \<Rightarrow> Threw TypeError s1)"

text \<open>\<^verbatim>\<open>_showForm(mapE)\<close>, the listener of a click on the map.\<close>

definition showForm :: "latlng \<Rightarrow> app \<Rightarrow> app" where
  "showForm mapE s = s\<lparr>mapEvent := Some mapE, form_hidden := False\<rparr>"

definition hideForm :: "app \<Rightarrow> app" where
  "hideForm s = s\<lparr>inputCadence := [], inputDistance := [], inputDuration := [],
                   inputElevation := [], form_hidden := True\<rparr>"

text \<open>
  \<^verbatim>\<open>_setLocalStorage\<close>. \<^verbatim>\<open>setItem\<close> stores the string of its argument, which for
  \<^verbatim>\<open>undefined\<close> is the text \<^verbatim>\<open>undefined\<close>. A storage that refuses the write is
  not modelled.
\<close>

definition setLocalStorage :: "app \<Rightarrow> app" where
  "setLocalStorage s =
     s\<lparr>localStorage := (localStorage s)(''workouts'' \<mapsto>
          (case JSON_stringify (workouts s) of
             None \<Rightarrow> Raw ''undefined''
           | Some j \<Rightarrow> Json j))\<rparr>"

text \<open>
  \<^verbatim>\<open>_getLocalStorage\<close>. \<^verbatim>\<open>getItem\<close> of a missing key is \<^verbatim>\<open>null\<close>, which
  \<^verbatim>\<open>JSON.parse\<close> reads as the text \<^verbatim>\<open>null\<close>. A value that is not an array has no
  \<^verbatim>\<open>forEach\<close>, and the call throws after the assignment.
\<close>

definition getLocalStorage :: "app \<Rightarrow> completion" where
  "getLocalStorage s =
     (case localStorage s ''workouts'' of
        None \<Rightarrow> Done s
      | Some (Raw t) \<Rightarrow> Threw SyntaxError s
      | Some (Json j) \<Rightarrow>
          (let data = JSON_parse j in
           if \<not> truthy data then Done s
           else let s1 = s\<lparr>workouts := data\<rparr>
                in case data of
                     Arr ws \<Rightarrow> forEach renderWorkout ws s1
                   | _ \<Rightarrow> Threw TypeError s1))"

text \<open>
  \<^verbatim>\<open>new App()\<close> on a page: the field initialisers, then \<^verbatim>\<open>_getPosition()\<close>, which
  only registers \<^verbatim>\<open>_loadMap\<close> for later, then \<^verbatim>\<open>_getLocalStorage()\<close>; the
  listeners are added last.
\<close>

definition App :: "app \<Rightarrow> completion" where
  "App page = getLocalStorage (page\<lparr>map' := None, mapEvent := None, workouts := Arr []\<rparr>)"

text \<open>
  \<^verbatim>\<open>this.#workouts.find(work => work.id === id)\<close>: the first element whose
  \<^verbatim>\<open>id\<close> is that string, \<^verbatim>\<open>undefined\<close> when there is none; reading
  \<^verbatim>\<open>work.id\<close> throws on an element that is \<^verbatim>\<open>undefined\<close> or \<^verbatim>\<open>null\<close>.
\<close>

fun find_workout :: "string \<Rightarrow> jsval list \<Rightarrow> js_error + jsval" where
  "find_workout i [] = Inr Undefined"
| "find_workout i (work # ws) =
     (if nullish work then Inl TypeError
      else if get_prop work ''id'' = Str i then Inr work
      else find_workout i ws)"

text \<open>
  \<^verbatim>\<open>_centerMapOnPopup(e)\<close>. Of the event only \<^verbatim>\<open>e.target.closest('.workout')\<close>
  matters: \<open>None\<close> when the click was outside every list item, else the
  \<^verbatim>\<open>dataset.id\<close> of the item.
\<close>

definition centerMapOnPopup :: "string option \<Rightarrow> app \<Rightarrow> completion" where
  "centerMapOnPopup workoutElement s =
     (case workoutElement of
        None \<Rightarrow> Done s
      | Some data_id \<Rightarrow>
          (case workouts s of
             Arr ws \<Rightarrow>
               (case find_workout data_id ws of
                  Inl e \<Rightarrow> Threw e s
                | Inr workout \<Rightarrow>
                    (case map' s of
                       None \<Rightarrow> Threw TypeError s
                     | Some m \<Rightarrow>
                         if nullish workout then Threw TypeError s
                         else Done (s\<lparr>map' := Some (m\<lparr>center := get_prop workout ''coordinates'',
                                                        zoom := mapZoomLevel\<rparr>)\<rparr>)))
           | _ \<Rightarrow> Threw TypeError s))"

text \<open>
  The two helpers of \<^verbatim>\<open>_newWorkout\<close>, \<^verbatim>\<open>inputs.every(...)\<close> over their arguments.
\<close>

definition validInputs :: "number list \<Rightarrow> bool" where
  "validInputs inputs = list_all isFinite inputs"

definition allPositive :: "number list \<Rightarrow> bool" where
  "allPositive inputs = list_all gt0 inputs"

definition alert :: "string \<Rightarrow> app \<Rightarrow> app" where
  "alert message s = s\<lparr>alerts := alerts s @ [message]\<rparr>"

text \<open>\<^verbatim>\<open>this.#workouts.push(workout)\<close>: only an array has \<^verbatim>\<open>push\<close>.\<close>

definition push :: "jsval \<Rightarrow> app \<Rightarrow> completion" where
  "push workout s =
     (case workouts s of
        Arr ws \<Rightarrow> Done (s\<lparr>workouts := Arr (ws @ [workout])\<rparr>)
      | _ \<Rightarrow> Threw TypeError s)"

text \<open>
  \<^verbatim>\<open>_newWorkout(e)\<close>, the listener of the form's submit event
  (\<^verbatim>\<open>e.preventDefault()\<close> keeps the page from loading again). \<open>Number\<close> is the
  language's conversion of a string to a number, a parameter of the model; \<open>d\<close> and
  \<open>now\<close> are the two readings of the clock that a constructor makes. The local
  \<^verbatim>\<open>workout\<close> starts \<^verbatim>\<open>undefined\<close>; each of the two \<^verbatim>\<open>if\<close> statements either
  leaves through \<^verbatim>\<open>return alert(...)\<close> (\<open>None\<close>) or goes on with a value for it.
  Reading \<^verbatim>\<open>this.#mapEvent.latlng\<close> throws while no click on the map was seen.
\<close>

definition newWorkout :: "(string \<Rightarrow> number) \<Rightarrow> date \<Rightarrow> int \<Rightarrow> app \<Rightarrow> completion" where
  "newWorkout Number d now s =
     (let type = inputType s;
          distance = Number (inputDistance s);
          duration = Number (inputDuration s)
      in case mapEvent s of
           None \<Rightarrow> Threw TypeError s
         | Some e \<Rightarrow>
        (case (if type = ''running'' then
                 (let cadence = Number (inputCadence s) in
                  if \<not> isFinite distance \<or> \<not> isFinite duration \<or> \<not> isFinite cadence
                     \<or> \<not> allPositive [distance, duration, cadence]
                  then None
                  else Some (Running d now (Arr [Num (lat e), Num (lng e)])
                               distance duration cadence))
               else Some Undefined) of
           None \<Rightarrow> Done (alert ''Please input a positive number.'' s)
         | Some workout1 \<Rightarrow>
        (case (if type = ''cycling'' then
                 (let elevation = Number (inputElevation s) in
                  if \<not> validInputs [distance, duration, elevation]
                     \<or> \<not> allPositive [distance, duration]
                  then None
                  else Some (Cycling d now (Arr [Num (lat e), Num (lng e)])
                               distance duration elevation))
               else Some workout1) of
           None \<Rightarrow> Done (alert ''Please input a positive number.'' s)
         | Some workout \<Rightarrow>
             andThen (andThen (andThen (push workout s)
               (renderWorkout workout))
               (renderWorkoutMarker workout))
               (\<lambda>s'. Done (setLocalStorage (hideForm s'))))))"

section \<open>Vocabulary of the specification\<close>

text \<open>
  The state a submission that constructed the workout \<open>w\<close> leaves: \<open>w\<close> is appended to
  the sequence \<open>ws\<close>, rendered as the first list item and as the last marker of the map
  \<open>m\<close>, the form is cleared and hidden, and the sequence is persisted.
\<close>

definition after_submit :: "jsval \<Rightarrow> jsval list \<Rightarrow> leaflet \<Rightarrow> app \<Rightarrow> app" where
  "after_submit w ws m s =
     setLocalStorage (hideForm (s\<lparr>workouts := Arr (ws @ [w]), list_items := w # list_items s,
        map' := Some (m\<lparr>markers := markers m @ [w]\<rparr>)\<rparr>))"

text \<open>
  The validation policy in the words of the specification: validation fails if a
  required field is not a finite number, or if the distance or the duration, and the
  cadence when the kind is distance-based (\<^verbatim>\<open>running\<close>), is not strictly positive.
  \<open>extra\<close> is the field of the kind: the cadence or the elevation.
\<close>

definition spec_fails_validation :: "string \<Rightarrow> number \<Rightarrow> number \<Rightarrow> number \<Rightarrow> bool" where
  "spec_fails_validation kind distance duration extra \<longleftrightarrow>
     \<not> isFinite distance \<or> \<not> isFinite duration \<or> \<not> isFinite extra
     \<or> \<not> gt0 distance \<or> \<not> gt0 duration \<or> (kind = ''running'' \<and> \<not> gt0 extra)"

definition kind_field :: "app \<Rightarrow> string" where
  "kind_field s = (if inputType s = ''running'' then inputCadence s else inputElevation s)"

text \<open>The \<^verbatim>\<open>id\<close> of every element of a sequence, in order.\<close>

fun entry_ids :: "jsval \<Rightarrow> jsval list" where
  "entry_ids (Arr ws) = map (\<lambda>w. get_prop w ''id'') ws"
| "entry_ids v = []"



text \<open>The number that a string of decimal digits denotes.\<close>

definition digit_value :: "char \<Rightarrow> nat" where
  "digit_value c = of_char c - 48"

definition decimal_value :: "string \<Rightarrow> nat" where
  "decimal_value s = foldl (\<lambda>n c. 10 * n + digit_value c) 0 s"

definition is_digit :: "char \<Rightarrow> bool" where
  "is_digit c \<longleftrightarrow> 48 \<le> (of_char c :: nat) \<and> (of_char c :: nat) \<le> 57"

section \<open>An example session\<close>

text \<open>
  The conversion \<^verbatim>\<open>Number\<close> on the strings that the examples type into the form;
  the empty string converts to 0 and a text that is no numeral to NaN.
\<close>

definition example_Number :: "string \<Rightarrow> number" where
  "example_Number t =
     (if t = ''5'' then Fin 5 else if t = ''30'' then Fin 30 else if t = ''178'' then Fin 178
      else if t = ''-5'' then Fin (- 5) else if t = ''-100'' then Fin (- 100)
      else if t = ''0'' then Fin 0 else if t = [] then Fin 0
      else if t = ''Infinity'' then PosInf else NaN)"

definition example_date :: date where
  "example_date = \<lparr>getTime = 1700000000000, getMonth = 10, getDate = 14,
     toISOString = ''2023-11-14T22:13:20.000Z''\<rparr>"

definition minute_later_date :: date where
  "minute_later_date = \<lparr>getTime = 1700000060000, getMonth = 10, getDate = 14,
     toISOString = ''2023-11-14T22:14:20.000Z''\<rparr>"

definition later_date :: date where
  "later_date = \<lparr>getTime = 1710000000000, getMonth = 2, getDate = 9,
     toISOString = ''2024-03-09T16:00:00.000Z''\<rparr>"

definition blank_page :: app where
  "blank_page = \<lparr>map' = None, mapEvent = None, workouts = Arr [], inputType = ''running'',
     inputDistance = [], inputDuration = [], inputCadence = [], inputElevation = [],
     form_hidden = True, list_items = [], alerts = [], localStorage = Map.empty\<rparr>"

text \<open>
  The application is constructed on the blank page, the map loads at (40, -73), the user
  clicks the map there and types a distance, a duration, a cadence and an elevation.
\<close>

definition example_state :: app where
  "example_state =
     (showForm \<lparr>lat = Fin 40, lng = Fin (- 73)\<rparr>
        (state_of (loadMap (Fin 40) (Fin (- 73)) (state_of (App blank_page)))))
     \<lparr>inputDistance := ''5'', inputDuration := ''30'', inputCadence := ''178'',
      inputElevation := ''-100''\<rparr>"

text \<open>
  Two submissions of one session: the first from \<open>example_state\<close>, the second after a
  new click on the map and new input, \<open>10^10\<close> milliseconds (115 days and 17 hours)
  later.
\<close>

definition first_submission :: completion where
  "first_submission = newWorkout example_Number example_date 1700000000000 example_state"

definition next_form :: app where
  "next_form =
     (showForm \<lparr>lat = Fin 41, lng = Fin (- 74)\<rparr> (state_of first_submission))
       \<lparr>inputDistance := ''5'', inputDuration := ''30'', inputCadence := ''178''\<rparr>"

definition second_submission :: completion where
  "second_submission = newWorkout example_Number later_date 1710000000000 next_form"

text \<open>The same second submission, one minute after the first instead.\<close>

definition minute_later_submission :: completion where
  "minute_later_submission = newWorkout example_Number minute_later_date 1700000060000 next_form"

text \<open>
  A stored record of the kind cycling whose speed, 99, is not the
  \<open>20 / (95 / 60)\<close> of its distance and duration.
\<close>

definition stale_record :: json where
  "stale_record = JObject [(''date'', JString ''2023-11-14T22:13:20.000Z''),
     (''id'', JString ''0000000000''), (''coordinates'', JArray [JNumber 40, JNumber (- 73)]),
     (''distance'', JNumber 20), (''duration'', JNumber 95), (''type'', JString ''cycling''),
     (''elevation'', JNumber 300), (''speed'', JNumber 99),
     (''description'', JString ''Cycling on November 14'')]"


section \<open>Lemmas on the methods\<close>

subsection \<open>Sequencing and rendering\<close>

lemma andThen_Done [simp]: "andThen (Done s) f = f s"
  by (simp add: andThen_def)

lemma andThen_Threw [simp]: "andThen (Threw e s) f = Threw e s"
  by (simp add: andThen_def)

lemma nullish_Running [simp]: "\<not> nullish (Running d now c distance duration cadence)"
  by (simp add: Running_def)

lemma nullish_Cycling [simp]: "\<not> nullish (Cycling d now c distance duration elevation)"
  by (simp add: Cycling_def)

lemma renderWorkout_Running [simp]:
  "renderWorkout (Running d now c distance duration cadence) s =
     Done (s\<lparr>list_items := Running d now c distance duration cadence # list_items s\<rparr>)"
  by (simp add: renderWorkout_def) (simp add: Running_def Workout_def)

lemma renderWorkout_Cycling [simp]:
  "renderWorkout (Cycling d now c distance duration elevation) s =
     Done (s\<lparr>list_items := Cycling d now c distance duration elevation # list_items s\<rparr>)"
  by (simp add: renderWorkout_def) (simp add: Cycling_def Workout_def)



lemma renderWorkout_workouts: "workouts (state_of (renderWorkout w s)) = workouts s"
  by (simp add: renderWorkout_def)

lemma forEach_renderWorkout_workouts:
  "workouts (state_of (forEach renderWorkout ws s)) = workouts s"
proof (induction ws arbitrary: s)
  case Nil
  show ?case by simp
next
  case (Cons w ws)
  show ?case
  proof (cases "renderWorkout w s")
    case (Done s1)
    then show ?thesis
      using Cons.IH [of s1] renderWorkout_workouts [of w s] by simp
  next
    case (Threw e s1)
    then show ?thesis
      using renderWorkout_workouts [of w s] by simp
  qed
qed

subsection \<open>The properties of a constructed workout\<close>

lemma get_prop_Running:
  "get_prop (Running d now c distance duration cadence) ''pace'' = Num (calcPace duration distance)"
  "get_prop (Running d now c distance duration cadence) ''coordinates'' = c"
  "get_prop (Running d now c distance duration cadence) ''id'' = Str (slice_last10 (toString_int now))"
  "get_prop (Running d now c distance duration cadence) ''cadence'' = Num cadence"
  by (simp_all add: Running_def Workout_def)

lemma get_prop_Cycling:
  "get_prop (Cycling d now c distance duration elevation) ''speed'' = Num (calcSpeed duration distance)"
  "get_prop (Cycling d now c distance duration elevation) ''coordinates'' = c"
  "get_prop (Cycling d now c distance duration elevation) ''id'' = Str (slice_last10 (toString_int now))"
  "get_prop (Cycling d now c distance duration elevation) ''elevation'' = Num elevation"
  by (simp_all add: Cycling_def Workout_def)

lemma get_prop_type:
  "get_prop (Running d now c distance duration cadence) ''type'' = Str ''running''"
  "get_prop (Cycling d now c distance duration elevation) ''type'' = Str ''cycling''"
  by (simp_all add: Running_def Cycling_def Workout_def)


subsection \<open>Submitting the form\<close>

lemma newWorkout_no_click:
  "mapEvent s = None \<Longrightarrow> newWorkout Number d now s = Threw TypeError s"
  by (simp add: newWorkout_def)

lemma newWorkout_running_invalid:
  assumes "mapEvent s = Some e" and "inputType s = ''running''"
    and "\<not> (isFinite (Number (inputDistance s)) \<and> isFinite (Number (inputDuration s))
           \<and> isFinite (Number (inputCadence s)) \<and> gt0 (Number (inputDistance s))
           \<and> gt0 (Number (inputDuration s)) \<and> gt0 (Number (inputCadence s)))"
  shows "newWorkout Number d now s = Done (alert ''Please input a positive number.'' s)"
  using assms by (auto simp add: newWorkout_def allPositive_def Let_def)

lemma newWorkout_cycling_invalid:
  assumes "mapEvent s = Some e" and "inputType s = ''cycling''"
    and "\<not> (isFinite (Number (inputDistance s)) \<and> isFinite (Number (inputDuration s))
           \<and> isFinite (Number (inputElevation s)) \<and> gt0 (Number (inputDistance s))
           \<and> gt0 (Number (inputDuration s)))"
  shows "newWorkout Number d now s = Done (alert ''Please input a positive number.'' s)"
  using assms by (auto simp add: newWorkout_def allPositive_def validInputs_def Let_def)

lemma newWorkout_running_valid:
  assumes "mapEvent s = Some e" and "map' s = Some m" and "workouts s = Arr ws"
    and "inputType s = ''running''"
    and "isFinite (Number (inputDistance s))" and "isFinite (Number (inputDuration s))"
    and "isFinite (Number (inputCadence s))" and "gt0 (Number (inputDistance s))"
    and "gt0 (Number (inputDuration s))" and "gt0 (Number (inputCadence s))"
  shows "newWorkout Number d now s =
     Done (after_submit (Running d now (Arr [Num (lat e), Num (lng e)]) (Number (inputDistance s))
             (Number (inputDuration s)) (Number (inputCadence s))) ws m s)"
  using assms
  by (simp add: newWorkout_def allPositive_def Let_def push_def renderWorkoutMarker_def
      after_submit_def)

lemma newWorkout_cycling_valid:
  assumes "mapEvent s = Some e" and "map' s = Some m" and "workouts s = Arr ws"
    and "inputType s = ''cycling''"
    and "isFinite (Number (inputDistance s))" and "isFinite (Number (inputDuration s))"
    and "isFinite (Number (inputElevation s))" and "gt0 (Number (inputDistance s))"
    and "gt0 (Number (inputDuration s))"
  shows "newWorkout Number d now s =
     Done (after_submit (Cycling d now (Arr [Num (lat e), Num (lng e)]) (Number (inputDistance s))
             (Number (inputDuration s)) (Number (inputElevation s))) ws m s)"
  using assms
  by (simp add: newWorkout_def allPositive_def validInputs_def Let_def push_def
      renderWorkoutMarker_def after_submit_def)

lemma newWorkout_other_kind:
  assumes "mapEvent s = Some e" and "workouts s = Arr ws"
    and "inputType s \<noteq> ''running''" and "inputType s \<noteq> ''cycling''"
  shows "newWorkout Number d now s = Threw TypeError (s\<lparr>workouts := Arr (ws @ [Undefined])\<rparr>)"
  using assms
  by (simp add: newWorkout_def Let_def push_def renderWorkout_def)

lemma after_submit_fields:
  "workouts (after_submit w ws m s) = Arr (ws @ [w])"
  "list_items (after_submit w ws m s) = w # list_items s"
  "map' (after_submit w ws m s) = Some (m\<lparr>markers := markers m @ [w]\<rparr>)"
  "mapEvent (after_submit w ws m s) = mapEvent s"
  "alerts (after_submit w ws m s) = alerts s"
  "inputType (after_submit w ws m s) = inputType s"
  "inputDistance (after_submit w ws m s) = []"
  "inputDuration (after_submit w ws m s) = []"
  "inputCadence (after_submit w ws m s) = []"
  "inputElevation (after_submit w ws m s) = []"
  "form_hidden (after_submit w ws m s) = True"
  "localStorage (after_submit w ws m s) ''workouts'' = Some (Json (JArray (map serialize (ws @ [w]))))"
  by (simp_all add: after_submit_def setLocalStorage_def hideForm_def JSON_stringify_def)

lemma spec_validation_running:
  "\<not> spec_fails_validation ''running'' distance duration cadence \<longleftrightarrow>
     isFinite distance \<and> isFinite duration \<and> isFinite cadence
     \<and> gt0 distance \<and> gt0 duration \<and> gt0 cadence"
  by (auto simp add: spec_fails_validation_def)

lemma spec_validation_cycling:
  "\<not> spec_fails_validation ''cycling'' distance duration elevation \<longleftrightarrow>
     isFinite distance \<and> isFinite duration \<and> isFinite elevation
     \<and> gt0 distance \<and> gt0 duration"
  by (auto simp add: spec_fails_validation_def)

lemma newWorkout_invalid:
  assumes "mapEvent s = Some e"
    and "inputType s = ''running'' \<or> inputType s = ''cycling''"
    and "spec_fails_validation (inputType s) (Number (inputDistance s))
           (Number (inputDuration s)) (Number (kind_field s))"
  shows "newWorkout Number d now s = Done (alert ''Please input a positive number.'' s)"
proof (cases "inputType s = ''running''")
  case True
  then show ?thesis
    using assms(1,3) spec_validation_running
    by (intro newWorkout_running_invalid [of s e]) (auto simp add: kind_field_def)
next
  case False
  then have "inputType s = ''cycling''"
    using assms(2) by simp
  then show ?thesis
    using assms(1,3) spec_validation_cycling
    by (intro newWorkout_cycling_invalid [of s e]) (auto simp add: kind_field_def)
qed

lemma newWorkout_valid:
  assumes "mapEvent s = Some e" and "map' s = Some m" and "workouts s = Arr ws"
    and "inputType s = ''running'' \<or> inputType s = ''cycling''"
    and "\<not> spec_fails_validation (inputType s) (Number (inputDistance s))
           (Number (inputDuration s)) (Number (kind_field s))"
  shows "\<exists>w. newWorkout Number d now s = Done (after_submit w ws m s)
           \<and> get_prop w ''coordinates'' = Arr [Num (lat e), Num (lng e)]
           \<and> get_prop w ''id'' = Str (slice_last10 (toString_int now))
           \<and> get_prop w ''type'' = Str (inputType s)"
proof (cases "inputType s = ''running''")
  case True
  then have "newWorkout Number d now s =
     Done (after_submit (Running d now (Arr [Num (lat e), Num (lng e)]) (Number (inputDistance s))
             (Number (inputDuration s)) (Number (inputCadence s))) ws m s)"
    using assms spec_validation_running
    by (intro newWorkout_running_valid) (auto simp add: kind_field_def)
  then show ?thesis
    using True
    by (intro exI [of _ "Running d now (Arr [Num (lat e), Num (lng e)]) (Number (inputDistance s))
             (Number (inputDuration s)) (Number (inputCadence s))"])
       (simp add: get_prop_Running get_prop_type)
next
  case False
  then have cyc: "inputType s = ''cycling''"
    using assms(4) by simp
  then have "newWorkout Number d now s =
     Done (after_submit (Cycling d now (Arr [Num (lat e), Num (lng e)]) (Number (inputDistance s))
             (Number (inputDuration s)) (Number (inputElevation s))) ws m s)"
    using assms spec_validation_cycling
    by (intro newWorkout_cycling_valid) (auto simp add: kind_field_def)
  then show ?thesis
    using cyc
    by (intro exI [of _ "Cycling d now (Arr [Num (lat e), Num (lng e)]) (Number (inputDistance s))
             (Number (inputDuration s)) (Number (inputElevation s))"])
       (simp add: get_prop_Cycling get_prop_type)
qed

lemma newWorkout_appended_id:
  assumes "newWorkout Number d now s = Done s'" and "workouts s = Arr ws"
    and "workouts s' = Arr (ws @ [w])"
  shows "get_prop w ''id'' = Str (slice_last10 (toString_int now))"
  using assms
  by (auto simp add: newWorkout_def Let_def push_def renderWorkout_def renderWorkoutMarker_def
      alert_def setLocalStorage_def hideForm_def get_prop_Running get_prop_Cycling
      split: option.splits if_splits)

subsection \<open>The last ten digits of the clock\<close>

lemma digit_cases:
  "d < 10 \<Longrightarrow> d = 0 \<or> d = 1 \<or> d = 2 \<or> d = 3 \<or> d = 4 \<or> d = 5 \<or> d = 6 \<or> d = 7 \<or> d = 8 \<or> d = (9::nat)"
  by arith

lemma digit_value_digit: "d < 10 \<Longrightarrow> digit_value (digit d) = d"
  using digit_cases [of d] by (auto simp add: digit_value_def digit_def)

lemma is_digit_digit: "d < 10 \<Longrightarrow> is_digit (digit d)"
  using digit_cases [of d] by (auto simp add: is_digit_def digit_def)

lemma foldl_decimal_shift:
  "foldl (\<lambda>n c. 10 * n + digit_value c) a ys = a * 10 ^ length ys + decimal_value ys"
proof (induction ys arbitrary: a rule: rev_induct)
  case Nil
  show ?case by (simp add: decimal_value_def)
next
  case (snoc y ys)
  show ?case
    using snoc.IH [of a] snoc.IH [of 0]
    by (simp add: decimal_value_def algebra_simps)
qed

lemma decimal_value_append:
  "decimal_value (xs @ ys) = decimal_value xs * 10 ^ length ys + decimal_value ys"
  using foldl_decimal_shift [of "decimal_value xs" ys]
  by (simp add: decimal_value_def)

lemma decimal_value_decimal: "decimal_value (decimal n) = n"
proof (induction n rule: decimal.induct)
  case (1 n)
  show ?case
  proof (cases "n < 10")
    case True
    then show ?thesis
      by (simp add: decimal.simps [of n] decimal_value_def digit_value_digit)
  next
    case False
    have "decimal_value (decimal n) =
        decimal_value (decimal (n div 10)) * 10 + digit_value (digit (n mod 10))"
      using False
      by (simp add: decimal.simps [of n] decimal_value_append) (simp add: decimal_value_def)
    also have "\<dots> = (n div 10) * 10 + n mod 10"
      using False "1.IH" by (simp add: digit_value_digit)
    finally show ?thesis by simp
  qed
qed

lemma digits_decimal: "list_all is_digit (decimal n)"
proof (induction n rule: decimal.induct)
  case (1 n)
  show ?case
  proof (cases "n < 10")
    case True
    then show ?thesis by (simp add: decimal.simps [of n] is_digit_digit)
  next
    case False
    then show ?thesis using "1.IH" by (simp add: decimal.simps [of n] is_digit_digit)
  qed
qed

lemma decimal_value_bound: "list_all is_digit s \<Longrightarrow> decimal_value s < 10 ^ length s"
proof (induction s rule: rev_induct)
  case Nil
  show ?case by (simp add: decimal_value_def)
next
  case (snoc c s)
  then have "decimal_value s < 10 ^ length s" and "digit_value c \<le> 9"
    by (auto simp add: is_digit_def digit_value_def)
  then have "decimal_value s * 10 + digit_value c < 10 ^ length s * 10"
    by arith
  then show ?case
    by (simp add: decimal_value_append) (simp add: decimal_value_def)
qed

lemma decimal_value_drop:
  assumes "list_all is_digit s"
  shows "decimal_value (drop k s) = decimal_value s mod 10 ^ (length s - k)"
proof -
  have digits: "list_all is_digit (drop k s)"
    using assms by (simp add: list_all_iff) (meson in_set_dropD)
  have "decimal_value s =
      decimal_value (take k s) * 10 ^ length (drop k s) + decimal_value (drop k s)"
    using decimal_value_append [of "take k s" "drop k s"] by simp
  moreover have "decimal_value (drop k s) < 10 ^ length (drop k s)"
    using digits by (rule decimal_value_bound)
  ultimately show ?thesis by simp
qed

lemma decimal_value_slice: "decimal_value (slice_last10 (decimal n)) = n mod 10 ^ 10"
proof (cases "length (decimal n) \<le> 10")
  case True
  have "n < 10 ^ length (decimal n)"
    using decimal_value_bound [OF digits_decimal, of n] by (simp add: decimal_value_decimal)
  also have "\<dots> \<le> 10 ^ 10"
    using True by (intro power_increasing) simp_all
  finally show ?thesis
    using True by (simp add: slice_last10_def decimal_value_decimal)
next
  case False
  then have "length (decimal n) - (length (decimal n) - 10) = 10" by arith
  then show ?thesis
    using decimal_value_drop [OF digits_decimal, of "length (decimal n) - 10" n]
    by (simp add: slice_last10_def decimal_value_decimal)
qed

lemma slice_eq_imp_mod:
  assumes "0 \<le> a" and "0 \<le> b"
    and "slice_last10 (toString_int a) = slice_last10 (toString_int b)"
  shows "a mod 10 ^ 10 = b mod 10 ^ 10"
proof -
  have "decimal_value (slice_last10 (decimal (nat a))) =
      decimal_value (slice_last10 (decimal (nat b)))"
    using assms by (simp add: toString_int_def)
  then have "nat a mod 10 ^ 10 = nat b mod 10 ^ 10"
    by (simp only: decimal_value_slice)
  then have "int (nat a mod 10 ^ 10) = int (nat b mod 10 ^ 10)" by simp
  then show ?thesis
    using assms by (simp add: zmod_int)
qed

subsection \<open>Writing and reading JSON\<close>

lemma map_of_foldl_update:
  "map_of (foldl (\<lambda>ob kv. AList.update (fst kv) (snd kv) ob) acc kvs) =
     map_of acc ++ map_of (rev kvs)"
proof (induction kvs arbitrary: acc)
  case Nil
  show ?case by simp
next
  case (Cons kv kvs)
  have "map_of (AList.update (fst kv) (snd kv) acc) ++ map_of (rev kvs) =
      map_of acc ++ (map_of [kv] ++ map_of (rev kvs))"
    by (cases kv) (auto simp add: update_conv' fun_eq_iff map_add_def split: option.splits)
  then show ?case
    using Cons.IH [of "AList.update (fst kv) (snd kv) acc"] by simp
qed

lemma map_of_define_members: "map_of (define_members kvs) = map_of (rev kvs)"
  by (simp add: define_members_def map_of_foldl_update)

lemma map_of_map_prod:
  "map_of (map (map_prod id f) kvs) k = map_option f (map_of kvs k)"
  by (induction kvs) auto

lemma get_prop_JSON_parse:
  "get_prop (JSON_parse (JObject kvs)) k =
     (case map_of (rev kvs) k of None \<Rightarrow> Undefined | Some j \<Rightarrow> JSON_parse j)"
proof -
  have "map_of (rev (map (map_prod id JSON_parse) kvs)) k =
      map_option JSON_parse (map_of (rev kvs) k)"
    using map_of_map_prod [of JSON_parse "rev kvs" k] by (simp add: rev_map)
  then show ?thesis
    by (simp add: map_of_define_members split: option.splits)
qed




subsection \<open>Restoring the log\<close>

lemma getLocalStorage_array:
  assumes "localStorage s ''workouts'' = Some (Json (JArray js))"
  shows "getLocalStorage s = forEach renderWorkout (map JSON_parse js) (s\<lparr>workouts := Arr (map JSON_parse js)\<rparr>)"
  using assms by (simp add: getLocalStorage_def)



subsection \<open>Finding a workout by its id\<close>

lemma find_workout_find:
  "list_all (\<lambda>w. \<not> nullish w) ws \<Longrightarrow>
     find_workout i ws =
       Inr (case List.find (\<lambda>w. get_prop w ''id'' = Str i) ws of
              None \<Rightarrow> Undefined | Some w \<Rightarrow> w)"
  by (induction ws) simp_all

lemma find_not_nullish:
  "list_all (\<lambda>w. \<not> nullish w) ws \<Longrightarrow> List.find P ws = Some w \<Longrightarrow> \<not> nullish w"
  by (induction ws) (auto split: if_splits)

subsection \<open>The example session\<close>

lemma example_state_eq:
  "example_state = \<lparr>map' = Some \<lparr>center = Arr [Num (Fin 40), Num (Fin (- 73))], zoom = 13, markers = []\<rparr>,
     mapEvent = Some \<lparr>lat = Fin 40, lng = Fin (- 73)\<rparr>, workouts = Arr [], inputType = ''running'',
     inputDistance = ''5'', inputDuration = ''30'', inputCadence = ''178'', inputElevation = ''-100'',
     form_hidden = False, list_items = [], alerts = [], localStorage = Map.empty\<rparr>"
  by (simp add: example_state_def blank_page_def App_def getLocalStorage_def loadMap_def
      showForm_def mapZoomLevel_def)

lemma example_fields:
  "mapEvent example_state = Some \<lparr>lat = Fin 40, lng = Fin (- 73)\<rparr>"
  "map' example_state = Some \<lparr>center = Arr [Num (Fin 40), Num (Fin (- 73))], zoom = 13, markers = []\<rparr>"
  "workouts example_state = Arr []"
  "inputType example_state = ''running''"
  "inputDistance example_state = ''5''"
  "inputDuration example_state = ''30''"
  "inputCadence example_state = ''178''"
  "inputElevation example_state = ''-100''"
  by (simp_all add: example_state_eq)

lemma example_ids:
  "slice_last10 (toString_int 1700000000000) = ''0000000000''"
  "slice_last10 (toString_int 1710000000000) = ''0000000000''"
  "slice_last10 (toString_int 1700000060000) = ''0000060000''"
  by (simp_all add: decimal.simps digit_def toString_int_def slice_last10_def)


lemma first_submission_eq:
  "first_submission =
     Done (after_submit (Running example_date 1700000000000 (Arr [Num (Fin 40), Num (Fin (- 73))])
             (Fin 5) (Fin 30) (Fin 178)) []
             \<lparr>center = Arr [Num (Fin 40), Num (Fin (- 73))], zoom = 13, markers = []\<rparr>
             example_state)"
proof -
  have "newWorkout example_Number example_date 1700000000000 example_state =
      Done (after_submit (Running example_date 1700000000000
              (Arr [Num (lat \<lparr>lat = Fin 40, lng = Fin (- 73)\<rparr>), Num (lng \<lparr>lat = Fin 40, lng = Fin (- 73)\<rparr>)])
              (example_Number (inputDistance example_state))
              (example_Number (inputDuration example_state))
              (example_Number (inputCadence example_state))) []
              \<lparr>center = Arr [Num (Fin 40), Num (Fin (- 73))], zoom = 13, markers = []\<rparr>
              example_state)"
    by (rule newWorkout_running_valid) (simp_all add: example_fields example_Number_def)
  then show ?thesis
    by (simp add: first_submission_def example_fields example_Number_def)
qed

lemma next_form_submission:
  "newWorkout example_Number d now next_form =
     Done (after_submit (Running d now (Arr [Num (Fin 41), Num (Fin (- 74))])
             (Fin 5) (Fin 30) (Fin 178))
             [Running example_date 1700000000000 (Arr [Num (Fin 40), Num (Fin (- 73))])
                (Fin 5) (Fin 30) (Fin 178)]
             \<lparr>center = Arr [Num (Fin 40), Num (Fin (- 73))], zoom = 13,
                markers = [Running example_date 1700000000000 (Arr [Num (Fin 40), Num (Fin (- 73))])
                (Fin 5) (Fin 30) (Fin 178)]\<rparr>
             next_form)"
proof -
  let ?w1 = "Running example_date 1700000000000 (Arr [Num (Fin 40), Num (Fin (- 73))])
               (Fin 5) (Fin 30) (Fin 178)"
  let ?m = "\<lparr>center = Arr [Num (Fin 40), Num (Fin (- 73))], zoom = 13, markers = []\<rparr>"
  have "newWorkout example_Number d now next_form =
      Done (after_submit (Running d now
              (Arr [Num (lat \<lparr>lat = Fin 41, lng = Fin (- 74)\<rparr>), Num (lng \<lparr>lat = Fin 41, lng = Fin (- 74)\<rparr>)])
              (example_Number (inputDistance next_form)) (example_Number (inputDuration next_form))
              (example_Number (inputCadence next_form))) ([] @ [?w1])
              (?m\<lparr>markers := markers ?m @ [?w1]\<rparr>) next_form)"
    by (rule newWorkout_running_valid)
       (simp_all add: next_form_def first_submission_eq showForm_def after_submit_fields
          example_fields example_Number_def)
  then show ?thesis
    by (simp add: next_form_def example_Number_def)
qed

section \<open>The claims\<close>

subsection \<open>Claim C1\<close>

text \<open>
  Claim C1, as stated, fails: the \<^verbatim>\<open>id\<close> is the last ten digits of the clock in
  milliseconds, so two submissions of one session whose clock readings differ by
  \<open>10^10\<close> milliseconds get the same \<^verbatim>\<open>id\<close>.
\<close>

theorem C1_ids_unique_counterexample:
  "is_Done first_submission \<and> is_Done second_submission
   \<and> entry_ids (workouts (state_of second_submission)) =
       [Str ''0000000000'', Str ''0000000000'']"
  by (simp add: first_submission_eq second_submission_def next_form_submission
      after_submit_fields get_prop_Running example_ids)

text \<open>
  Claim C1, amended. Two workouts appended by successful submissions have distinct
  \<^verbatim>\<open>id\<close> values whenever the readings of \<^verbatim>\<open>Date.now()\<close> at their construction
  are not negative and differ modulo \<open>10^10\<close>; so do any two distinct readings less than
  \<open>10^10\<close> milliseconds apart.
\<close>

theorem C1_ids_distinct_when_clock_differs:
  assumes "newWorkout Number d1 now1 s1 = Done s1'" and "workouts s1 = Arr ws1"
    and "workouts s1' = Arr (ws1 @ [w1])"
    and "newWorkout Number d2 now2 s2 = Done s2'" and "workouts s2 = Arr ws2"
    and "workouts s2' = Arr (ws2 @ [w2])"
    and "0 \<le> now1" and "0 \<le> now2"
    and "now1 mod 10 ^ 10 \<noteq> now2 mod 10 ^ 10"
  shows "get_prop w1 ''id'' \<noteq> get_prop w2 ''id''"
proof
  assume "get_prop w1 ''id'' = get_prop w2 ''id''"
  then have "slice_last10 (toString_int now1) = slice_last10 (toString_int now2)"
    using newWorkout_appended_id [OF assms(1,2,3)] newWorkout_appended_id [OF assms(4,5,6)]
    by simp
  then have "now1 mod 10 ^ 10 = now2 mod 10 ^ 10"
    using assms(7,8) by (intro slice_eq_imp_mod)
  then show False
    using assms(9) by simp
qed

theorem C1_ids_distinct_when_clock_differs_witness:
  "workouts (state_of minute_later_submission) =
     Arr [Running example_date 1700000000000 (Arr [Num (Fin 40), Num (Fin (- 73))])
            (Fin 5) (Fin 30) (Fin 178),
          Running minute_later_date 1700000060000 (Arr [Num (Fin 41), Num (Fin (- 74))])
            (Fin 5) (Fin 30) (Fin 178)]
   \<and> get_prop (Running example_date 1700000000000 (Arr [Num (Fin 40), Num (Fin (- 73))])
            (Fin 5) (Fin 30) (Fin 178)) ''id''
     \<noteq> get_prop (Running minute_later_date 1700000060000 (Arr [Num (Fin 41), Num (Fin (- 74))])
            (Fin 5) (Fin 30) (Fin 178)) ''id''"
proof -
  let ?w1 = "Running example_date 1700000000000 (Arr [Num (Fin 40), Num (Fin (- 73))])
               (Fin 5) (Fin 30) (Fin 178)"
  let ?w2 = "Running minute_later_date 1700000060000 (Arr [Num (Fin 41), Num (Fin (- 74))])
               (Fin 5) (Fin 30) (Fin 178)"
  let ?m = "\<lparr>center = Arr [Num (Fin 40), Num (Fin (- 73))], zoom = 13, markers = []\<rparr>"
  let ?m' = "\<lparr>center = Arr [Num (Fin 40), Num (Fin (- 73))], zoom = 13, markers = [?w1]\<rparr>"
  have h1: "newWorkout example_Number example_date 1700000000000 example_state =
      Done (after_submit ?w1 [] ?m example_state)"
    using first_submission_eq by (simp add: first_submission_def)
  have h2: "workouts example_state = Arr []"
    by (simp add: example_fields)
  have h3: "workouts (after_submit ?w1 [] ?m example_state) = Arr ([] @ [?w1])"
    by (simp add: after_submit_fields)
  have h4: "newWorkout example_Number minute_later_date 1700000060000 next_form =
      Done (after_submit ?w2 [?w1] ?m' next_form)"
    by (rule next_form_submission)
  have h5: "workouts next_form = Arr [?w1]"
    by (simp add: next_form_def first_submission_eq showForm_def after_submit_fields)
  have h6: "workouts (after_submit ?w2 [?w1] ?m' next_form) = Arr ([?w1] @ [?w2])"
    by (simp add: after_submit_fields)
  have h7: "(0::int) \<le> 1700000000000" and h8: "(0::int) \<le> 1700000060000"
    and h9: "(1700000000000::int) mod 10 ^ 10 \<noteq> 1700000060000 mod 10 ^ 10"
    by simp_all
  show ?thesis
    using C1_ids_distinct_when_clock_differs [OF h1 h2 h3 h4 h5 h6 h7 h8 h9]
    by (simp add: minute_later_submission_def h4 after_submit_fields)
qed

subsection \<open>Claim C2\<close>



subsection \<open>Claim C3\<close>

text \<open>
  Claim C3. A submission, made after a click on the map and with one of the two kinds
  selected, whose fields fail the specification's validation (a required field that is not
  a finite number, or a distance, a duration or, for the kind running, a cadence that is
  not strictly positive) ends in the alert \<^verbatim>\<open>Please input a positive number.\<close> and
  changes nothing else: no workout is constructed, and the sequence, the storage, the list
  and the map are what they were.
\<close>

theorem C3_invalid_submission_rejected:
  assumes "mapEvent s = Some e"
    and "inputType s = ''running'' \<or> inputType s = ''cycling''"
    and "spec_fails_validation (inputType s) (Number (inputDistance s))
           (Number (inputDuration s)) (Number (kind_field s))"
  shows "newWorkout Number d now s =
           Done (s\<lparr>alerts := alerts s @ [''Please input a positive number.'']\<rparr>)
         \<and> workouts (state_of (newWorkout Number d now s)) = workouts s
         \<and> localStorage (state_of (newWorkout Number d now s)) = localStorage s
         \<and> list_items (state_of (newWorkout Number d now s)) = list_items s
         \<and> map' (state_of (newWorkout Number d now s)) = map' s"
proof -
  have "newWorkout Number d now s = Done (alert ''Please input a positive number.'' s)"
  proof (cases "inputType s = ''running''")
    case True
    then show ?thesis
      using assms(1,3)
      by (intro newWorkout_running_invalid [of s e])
         (auto simp add: spec_fails_validation_def kind_field_def)
  next
    case False
    then have "inputType s = ''cycling''"
      using assms(2) by simp
    then show ?thesis
      using assms(1,3)
      by (intro newWorkout_cycling_invalid [of s e])
         (auto simp add: spec_fails_validation_def kind_field_def)
  qed
  then show ?thesis
    by (simp add: alert_def)
qed

theorem C3_invalid_submission_rejected_witness:
  "spec_fails_validation ''running'' (example_Number ''-5'') (example_Number ''30'')
      (example_Number ''178'')
   \<and> newWorkout example_Number example_date 1700000000000
        (example_state\<lparr>inputDistance := ''-5''\<rparr>) =
      Done (example_state\<lparr>inputDistance := ''-5'',
              alerts := [''Please input a positive number.'']\<rparr>)
   \<and> workouts (state_of (newWorkout example_Number example_date 1700000000000
        (example_state\<lparr>inputDistance := ''-5''\<rparr>))) = Arr []"
proof -
  have click: "mapEvent (example_state\<lparr>inputDistance := ''-5''\<rparr>) = Some \<lparr>lat = Fin 40, lng = Fin (- 73)\<rparr>"
    by (simp add: example_state_eq)
  have kind: "inputType (example_state\<lparr>inputDistance := ''-5''\<rparr>) = ''running''
      \<or> inputType (example_state\<lparr>inputDistance := ''-5''\<rparr>) = ''cycling''"
    by (simp add: example_state_eq)
  have fails: "spec_fails_validation (inputType (example_state\<lparr>inputDistance := ''-5''\<rparr>))
      (example_Number (inputDistance (example_state\<lparr>inputDistance := ''-5''\<rparr>)))
      (example_Number (inputDuration (example_state\<lparr>inputDistance := ''-5''\<rparr>)))
      (example_Number (kind_field (example_state\<lparr>inputDistance := ''-5''\<rparr>)))"
    by (simp add: example_state_eq spec_fails_validation_def kind_field_def example_Number_def)
  show ?thesis
    using fails C3_invalid_submission_rejected [OF click kind fails, of example_date 1700000000000]
    by (simp add: example_state_eq kind_field_def)
qed

subsection \<open>Claim C4\<close>




subsection \<open>Claim C5\<close>

text \<open>
  Claim C5. When the storage holds an array of records, \<^verbatim>\<open>_getLocalStorage\<close> makes
  the parsed array the in-memory sequence as it is, whether or not rendering it then
  throws: every property of every restored record is what the member of that name in the
  stored record says (the last one, should the name occur twice). Nothing is validated
  and no metric is computed.
\<close>

theorem C5_restore_adopts_verbatim:
  assumes "localStorage s ''workouts'' = Some (Json (JArray js))"
  shows "workouts (state_of (getLocalStorage s)) = Arr (map JSON_parse js)
       \<and> workouts (state_of (App s)) = Arr (map JSON_parse js)
       \<and> (\<forall>i < length js. \<forall>kvs k. js ! i = JObject kvs \<longrightarrow>
            get_prop (map JSON_parse js ! i) k =
              (case map_of (rev kvs) k of None \<Rightarrow> Undefined | Some j \<Rightarrow> JSON_parse j))"
proof (intro conjI allI impI)
  show "workouts (state_of (getLocalStorage s)) = Arr (map JSON_parse js)"
    using assms by (simp add: getLocalStorage_array forEach_renderWorkout_workouts)
  have "localStorage (s\<lparr>map' := None, mapEvent := None, workouts := Arr []\<rparr>) ''workouts'' =
      Some (Json (JArray js))"
    using assms by simp
  then show "workouts (state_of (App s)) = Arr (map JSON_parse js)"
    unfolding App_def by (simp add: getLocalStorage_array forEach_renderWorkout_workouts)
next
  fix i kvs k
  assume "i < length js" and "js ! i = JObject kvs"
  then show "get_prop (map JSON_parse js ! i) k =
      (case map_of (rev kvs) k of None \<Rightarrow> Undefined | Some j \<Rightarrow> JSON_parse j)"
    using get_prop_JSON_parse [of kvs k] by simp
qed

theorem C5_restore_adopts_verbatim_witness:
  "workouts (state_of (App (blank_page\<lparr>localStorage := [''workouts'' \<mapsto> Json (JArray [stale_record])]\<rparr>))) =
     Arr [JSON_parse stale_record]
   \<and> get_prop (JSON_parse stale_record) ''speed'' = Num (Fin 99)
   \<and> calcSpeed (Fin 95) (Fin 20) \<noteq> Fin 99"
proof -
  let ?p = "blank_page\<lparr>localStorage := [''workouts'' \<mapsto> Json (JArray [stale_record])]\<rparr>"
  have h: "localStorage ?p ''workouts'' = Some (Json (JArray [stale_record]))"
    by simp
  have "get_prop (JSON_parse stale_record) ''speed'' = Num (Fin 99)"
    using C5_restore_adopts_verbatim [OF h]
    by (simp add: stale_record_def)
  moreover have "workouts (state_of (App ?p)) = Arr [JSON_parse stale_record]"
    using C5_restore_adopts_verbatim [OF h] by simp
  moreover have "calcSpeed (Fin 95) (Fin 20) \<noteq> Fin 99"
    by (simp add: calcSpeed_def)
  ultimately show ?thesis by simp
qed

subsection \<open>Claim C6\<close>

text \<open>
  Claim C6. Persisting twice in succession, with nothing in between, leaves the state
  that persisting once leaves, and so the same stored snapshot; persisting right after a
  successful submission rewrites the snapshot that the submission has just written.
\<close>

theorem C6_persist_idempotent:
  "setLocalStorage (setLocalStorage s) = setLocalStorage s
   \<and> localStorage (setLocalStorage (setLocalStorage s)) ''workouts'' =
       localStorage (setLocalStorage s) ''workouts''
   \<and> setLocalStorage (after_submit w ws m s) = after_submit w ws m s"
proof -
  have kept: "workouts (setLocalStorage t) = workouts t" for t
    by (simp add: setLocalStorage_def)
  have slot: "localStorage (setLocalStorage t) =
      (localStorage t)(''workouts'' \<mapsto>
         (case JSON_stringify (workouts t) of None \<Rightarrow> Raw ''undefined'' | Some j \<Rightarrow> Json j))" for t
    by (simp add: setLocalStorage_def)
  have twice: "setLocalStorage (setLocalStorage t) = setLocalStorage t" for t
  proof -
    have "localStorage (setLocalStorage (setLocalStorage t)) = localStorage (setLocalStorage t)"
      by (simp only: slot [of "setLocalStorage t"] kept) (simp add: slot)
    then show ?thesis
      by (simp add: setLocalStorage_def)
  qed
  show ?thesis
    using twice [of s] twice [of "hideForm (s\<lparr>workouts := Arr (ws @ [w]),
      list_items := w # list_items s, map' := Some (m\<lparr>markers := markers m @ [w]\<rparr>)\<rparr>)"]
    by (simp add: after_submit_def)
qed

subsection \<open>Claim C7\<close>

text \<open>
  Claim C7. Validation differs between the kinds. With a finite distance > 0 and a finite
  duration > 0, a submission of the kind cycling succeeds for every finite elevation, zero
  and negative ones too, and is rejected when the elevation is not finite; a submission
  of the kind running is rejected when its cadence is not strictly positive and succeeds
  when it is. Only the kind running reads the cadence, only the kind cycling the elevation.
\<close>

theorem C7_validation_asymmetric:
  assumes "mapEvent s = Some e" and "map' s = Some m" and "workouts s = Arr ws"
    and "Number (inputDistance s) = Fin distance" and "0 < distance"
    and "Number (inputDuration s) = Fin duration" and "0 < duration"
  shows "(inputType s = ''cycling'' \<and> Number (inputElevation s) = Fin elevation \<longrightarrow>
           newWorkout Number d now s =
             Done (after_submit (Cycling d now (Arr [Num (lat e), Num (lng e)]) (Fin distance)
                     (Fin duration) (Fin elevation)) ws m s))
       \<and> (inputType s = ''cycling'' \<and> \<not> isFinite (Number (inputElevation s)) \<longrightarrow>
           newWorkout Number d now s =
             Done (s\<lparr>alerts := alerts s @ [''Please input a positive number.'']\<rparr>))
       \<and> (inputType s = ''running'' \<and> Number (inputCadence s) = Fin cadence \<and> cadence \<le> 0 \<longrightarrow>
           newWorkout Number d now s =
             Done (s\<lparr>alerts := alerts s @ [''Please input a positive number.'']\<rparr>))
       \<and> (inputType s = ''running'' \<and> Number (inputCadence s) = Fin cadence \<and> 0 < cadence \<longrightarrow>
           newWorkout Number d now s =
             Done (after_submit (Running d now (Arr [Num (lat e), Num (lng e)]) (Fin distance)
                     (Fin duration) (Fin cadence)) ws m s))"
proof (intro conjI impI)
  assume "inputType s = ''cycling'' \<and> Number (inputElevation s) = Fin elevation"
  then show "newWorkout Number d now s =
      Done (after_submit (Cycling d now (Arr [Num (lat e), Num (lng e)]) (Fin distance)
              (Fin duration) (Fin elevation)) ws m s)"
    using newWorkout_cycling_valid [of s e m ws Number d now] assms by simp
next
  assume "inputType s = ''cycling'' \<and> \<not> isFinite (Number (inputElevation s))"
  then show "newWorkout Number d now s =
      Done (s\<lparr>alerts := alerts s @ [''Please input a positive number.'']\<rparr>)"
    using newWorkout_cycling_invalid [of s e Number d now] assms(1) by (simp add: alert_def)
next
  assume "inputType s = ''running'' \<and> Number (inputCadence s) = Fin cadence \<and> cadence \<le> 0"
  then show "newWorkout Number d now s =
      Done (s\<lparr>alerts := alerts s @ [''Please input a positive number.'']\<rparr>)"
    using newWorkout_running_invalid [of s e Number d now] assms(1) by (simp add: alert_def)
next
  assume "inputType s = ''running'' \<and> Number (inputCadence s) = Fin cadence \<and> 0 < cadence"
  then show "newWorkout Number d now s =
      Done (after_submit (Running d now (Arr [Num (lat e), Num (lng e)]) (Fin distance)
              (Fin duration) (Fin cadence)) ws m s)"
    using newWorkout_running_valid [of s e m ws Number d now] assms by simp
qed

theorem C7_validation_asymmetric_witness:
  "newWorkout example_Number example_date 1700000000000
      (example_state\<lparr>inputType := ''cycling'', inputCadence := ''-5''\<rparr>) =
     Done (after_submit (Cycling example_date 1700000000000 (Arr [Num (Fin 40), Num (Fin (- 73))])
             (Fin 5) (Fin 30) (Fin (- 100))) []
             \<lparr>center = Arr [Num (Fin 40), Num (Fin (- 73))], zoom = 13, markers = []\<rparr>
             (example_state\<lparr>inputType := ''cycling'', inputCadence := ''-5''\<rparr>))
   \<and> newWorkout example_Number example_date 1700000000000
      (example_state\<lparr>inputType := ''cycling'', inputElevation := ''Infinity''\<rparr>) =
     Done (example_state\<lparr>inputType := ''cycling'', inputElevation := ''Infinity'',
             alerts := [''Please input a positive number.'']\<rparr>)
   \<and> newWorkout example_Number example_date 1700000000000
      (example_state\<lparr>inputCadence := ''-100''\<rparr>) =
     Done (example_state\<lparr>inputCadence := ''-100'',
             alerts := [''Please input a positive number.'']\<rparr>)"
proof -
  let ?m = "\<lparr>center = Arr [Num (Fin 40), Num (Fin (- 73))], zoom = 13, markers = []\<rparr>"
  let ?e = "\<lparr>lat = Fin 40, lng = Fin (- 73)\<rparr>"
  let ?a = "example_state\<lparr>inputType := ''cycling'', inputCadence := ''-5''\<rparr>"
  let ?b = "example_state\<lparr>inputType := ''cycling'', inputElevation := ''Infinity''\<rparr>"
  let ?c = "example_state\<lparr>inputCadence := ''-100''\<rparr>"
  have pos: "(0::real) < 5" "(0::real) < 30"
    by simp_all
  have a: "mapEvent ?a = Some ?e" "map' ?a = Some ?m" "workouts ?a = Arr []"
    "example_Number (inputDistance ?a) = Fin 5" "example_Number (inputDuration ?a) = Fin 30"
    "inputType ?a = ''cycling'' \<and> example_Number (inputElevation ?a) = Fin (- 100)"
    by (simp_all add: example_fields example_Number_def)
  have b: "mapEvent ?b = Some ?e" "map' ?b = Some ?m" "workouts ?b = Arr []"
    "example_Number (inputDistance ?b) = Fin 5" "example_Number (inputDuration ?b) = Fin 30"
    "inputType ?b = ''cycling'' \<and> \<not> isFinite (example_Number (inputElevation ?b))"
    by (simp_all add: example_fields example_Number_def)
  have c: "mapEvent ?c = Some ?e" "map' ?c = Some ?m" "workouts ?c = Arr []"
    "example_Number (inputDistance ?c) = Fin 5" "example_Number (inputDuration ?c) = Fin 30"
    "inputType ?c = ''running'' \<and> example_Number (inputCadence ?c) = Fin (- 100) \<and> (- 100 :: real) \<le> 0"
    by (simp_all add: example_fields example_Number_def)
  have "newWorkout example_Number example_date 1700000000000 ?a =
     Done (after_submit (Cycling example_date 1700000000000 (Arr [Num (Fin 40), Num (Fin (- 73))])
             (Fin 5) (Fin 30) (Fin (- 100))) [] ?m ?a)"
    using C7_validation_asymmetric [OF a(1) a(2) a(3) a(4) pos(1) a(5) pos(2),
        of "- 100" example_date 1700000000000] a(6)
    by simp
  moreover have "newWorkout example_Number example_date 1700000000000 ?b =
     Done (?b\<lparr>alerts := alerts ?b @ [''Please input a positive number.'']\<rparr>)"
    using C7_validation_asymmetric [OF b(1) b(2) b(3) b(4) pos(1) b(5) pos(2),
        of 0 example_date 1700000000000] b(6)
    by simp
  moreover have "newWorkout example_Number example_date 1700000000000 ?c =
     Done (?c\<lparr>alerts := alerts ?c @ [''Please input a positive number.'']\<rparr>)"
    using C7_validation_asymmetric [OF c(1) c(2) c(3) c(4) pos(1) c(5) pos(2),
        of 0 example_date 1700000000000 "- 100"] c(6)
    by simp
  ultimately show ?thesis
    by (simp add: example_state_eq)
qed

subsection \<open>Claim C8\<close>

text \<open>
  Claim C8, as stated, fails: when no workout has the \<^verbatim>\<open>id\<close> of the clicked list
  item, \<^verbatim>\<open>find\<close> yields \<^verbatim>\<open>undefined\<close> and reading its coordinates throws a
  TypeError that nothing catches. After the first submission the log holds the one
  \<^verbatim>\<open>id\<close> 0000000000.
\<close>

theorem C8_entry_not_found_counterexample:
  "entry_ids (workouts (state_of first_submission)) = [Str ''0000000000'']
   \<and> centerMapOnPopup (Some ''9999999999'') (state_of first_submission) =
       Threw TypeError (state_of first_submission)"
  by (simp add: centerMapOnPopup_def first_submission_eq after_submit_fields
      get_prop_Running example_ids)

text \<open>
  Claim C8, amended. Once the map is loaded, on a click on a list item, with a sequence
  none of whose elements is \<^verbatim>\<open>undefined\<close> or \<^verbatim>\<open>null\<close>: if some workout has the
  item's \<^verbatim>\<open>id\<close>, the map is asked to centre on the coordinates of the first such
  workout at the zoom level 13; if no workout has that \<^verbatim>\<open>id\<close>, the listener ends in
  a TypeError and leaves the state as it was. A click outside every list item does nothing.
\<close>

theorem C8_center_on_found_entry:
  assumes "workouts s = Arr ws" and "list_all (\<lambda>w. \<not> nullish w) ws" and "map' s = Some m"
  shows "(\<forall>w. List.find (\<lambda>w. get_prop w ''id'' = Str i) ws = Some w \<longrightarrow>
            centerMapOnPopup (Some i) s =
              Done (s\<lparr>map' := Some (m\<lparr>center := get_prop w ''coordinates'', zoom := 13\<rparr>)\<rparr>))
       \<and> ((\<forall>w \<in> set ws. get_prop w ''id'' \<noteq> Str i) \<longrightarrow>
            centerMapOnPopup (Some i) s = Threw TypeError s)
       \<and> centerMapOnPopup None s = Done s"
proof (intro conjI allI impI)
  fix w
  assume found: "List.find (\<lambda>w. get_prop w ''id'' = Str i) ws = Some w"
  then have "\<not> nullish w"
    using find_not_nullish [OF assms(2)] by blast
  then show "centerMapOnPopup (Some i) s =
      Done (s\<lparr>map' := Some (m\<lparr>center := get_prop w ''coordinates'', zoom := 13\<rparr>)\<rparr>)"
    using found assms(1,3) find_workout_find [OF assms(2), of i]
    by (simp add: centerMapOnPopup_def mapZoomLevel_def)
next
  assume "\<forall>w \<in> set ws. get_prop w ''id'' \<noteq> Str i"
  then have "List.find (\<lambda>w. get_prop w ''id'' = Str i) ws = None"
    by (simp add: find_None_iff)
  then show "centerMapOnPopup (Some i) s = Threw TypeError s"
    using assms(1,3) find_workout_find [OF assms(2), of i]
    by (simp add: centerMapOnPopup_def)
next
  show "centerMapOnPopup None s = Done s"
    by (simp add: centerMapOnPopup_def)
qed

theorem C8_center_on_found_entry_witness:
  "centerMapOnPopup (Some ''0000000000'') (state_of first_submission) =
     Done ((state_of first_submission)
       \<lparr>map' := Some \<lparr>center = Arr [Num (Fin 40), Num (Fin (- 73))], zoom = 13,
           markers = [Running example_date 1700000000000 (Arr [Num (Fin 40), Num (Fin (- 73))])
                        (Fin 5) (Fin 30) (Fin 178)]\<rparr>\<rparr>)
   \<and> centerMapOnPopup (Some ''9999999999'') (state_of first_submission) =
       Threw TypeError (state_of first_submission)"
proof -
  let ?w = "Running example_date 1700000000000 (Arr [Num (Fin 40), Num (Fin (- 73))])
              (Fin 5) (Fin 30) (Fin 178)"
  let ?m = "\<lparr>center = Arr [Num (Fin 40), Num (Fin (- 73))], zoom = 13, markers = [?w]\<rparr>"
  let ?s = "state_of first_submission"
  have h1: "workouts ?s = Arr [?w]" and h2: "list_all (\<lambda>w. \<not> nullish w) [?w]"
    and h3: "map' ?s = Some ?m"
    by (simp_all add: first_submission_eq after_submit_fields)
  have found: "List.find (\<lambda>w. get_prop w ''id'' = Str ''0000000000'') [?w] = Some ?w"
    by (simp add: get_prop_Running example_ids)
  have missing: "\<forall>w \<in> set [?w]. get_prop w ''id'' \<noteq> Str ''9999999999''"
    by (simp add: get_prop_Running example_ids)
  have "centerMapOnPopup (Some ''0000000000'') ?s =
      Done (?s\<lparr>map' := Some (?m\<lparr>center := get_prop ?w ''coordinates'', zoom := 13\<rparr>)\<rparr>)"
    using C8_center_on_found_entry [OF h1 h2 h3, of "''0000000000''"] found by blast
  moreover have "centerMapOnPopup (Some ''9999999999'') ?s = Threw TypeError ?s"
    using C8_center_on_found_entry [OF h1 h2 h3, of "''9999999999''"] missing by blast
  ultimately show ?thesis
    by (simp add: get_prop_Running)
qed

subsection \<open>Claim C9\<close>

text \<open>
  Claim C9, as stated, fails: after a rejected submission the click of the map is still
  held, and a second submission with corrected fields, with no click in between,
  succeeds at the coordinates of that click.
\<close>

theorem C9_coordinate_discarded_counterexample:
  "mapEvent (state_of (newWorkout example_Number example_date 1700000000000
       (example_state\<lparr>inputDistance := ''-5''\<rparr>))) = Some \<lparr>lat = Fin 40, lng = Fin (- 73)\<rparr>
   \<and> is_Done (newWorkout example_Number minute_later_date 1700000060000
       ((state_of (newWorkout example_Number example_date 1700000000000
           (example_state\<lparr>inputDistance := ''-5''\<rparr>)))\<lparr>inputDistance := ''5''\<rparr>))
   \<and> workouts (state_of (newWorkout example_Number minute_later_date 1700000060000
       ((state_of (newWorkout example_Number example_date 1700000000000
           (example_state\<lparr>inputDistance := ''-5''\<rparr>)))\<lparr>inputDistance := ''5''\<rparr>))) =
     Arr [Running minute_later_date 1700000060000 (Arr [Num (Fin 40), Num (Fin (- 73))])
            (Fin 5) (Fin 30) (Fin 178)]"
proof -
  let ?bad = "example_state\<lparr>inputDistance := ''-5''\<rparr>"
  let ?m = "\<lparr>center = Arr [Num (Fin 40), Num (Fin (- 73))], zoom = 13, markers = []\<rparr>"
  have first: "newWorkout example_Number example_date 1700000000000 ?bad =
      Done (alert ''Please input a positive number.'' ?bad)"
    by (rule newWorkout_running_invalid [of _ "\<lparr>lat = Fin 40, lng = Fin (- 73)\<rparr>"])
       (simp_all add: example_fields example_Number_def)
  let ?retry = "(alert ''Please input a positive number.'' ?bad)\<lparr>inputDistance := ''5''\<rparr>"
  have second: "newWorkout example_Number minute_later_date 1700000060000 ?retry =
      Done (after_submit (Running minute_later_date 1700000060000
              (Arr [Num (lat \<lparr>lat = Fin 40, lng = Fin (- 73)\<rparr>), Num (lng \<lparr>lat = Fin 40, lng = Fin (- 73)\<rparr>)])
              (example_Number (inputDistance ?retry)) (example_Number (inputDuration ?retry))
              (example_Number (inputCadence ?retry))) [] ?m ?retry)"
    by (rule newWorkout_running_valid)
       (simp_all add: example_fields example_Number_def alert_def)
  show ?thesis
    unfolding first completion.sel second
    by (simp add: after_submit_fields) (simp add: alert_def example_fields example_Number_def)
qed

text \<open>
  Claim C9, amended. A rejected submission leaves the click of the map where it was, as
  it leaves the whole state but for the alert: once the fields are corrected, a second
  submission succeeds with no new click on the map, and the workout it constructs has the
  coordinates of the click that was held.
\<close>

theorem C9_coordinate_kept_after_rejection:
  assumes "mapEvent s = Some e" and "map' s = Some m" and "workouts s = Arr ws"
    and "inputType s = ''running'' \<or> inputType s = ''cycling''"
    and "spec_fails_validation (inputType s) (Number (inputDistance s))
           (Number (inputDuration s)) (Number (kind_field s))"
    and "s2 = (state_of (newWorkout Number d now s))\<lparr>inputType := kind, inputDistance := a,
           inputDuration := b, inputCadence := c, inputElevation := el\<rparr>"
    and "kind = ''running'' \<or> kind = ''cycling''"
    and "\<not> spec_fails_validation kind (Number a) (Number b)
           (Number (if kind = ''running'' then c else el))"
  shows "mapEvent (state_of (newWorkout Number d now s)) = Some e
       \<and> (\<exists>w. newWorkout Number d2 now2 s2 = Done (after_submit w ws m s2)
              \<and> workouts (after_submit w ws m s2) = Arr (ws @ [w])
              \<and> get_prop w ''coordinates'' = Arr [Num (lat e), Num (lng e)])"
proof -
  have first: "newWorkout Number d now s = Done (alert ''Please input a positive number.'' s)"
    using assms(1,4,5) by (rule newWorkout_invalid)
  have s2: "mapEvent s2 = Some e" "map' s2 = Some m" "workouts s2 = Arr ws"
    "inputType s2 = kind" "inputDistance s2 = a" "inputDuration s2 = b"
    "kind_field s2 = (if kind = ''running'' then c else el)"
    using assms(1,2,3,6) by (simp_all add: first alert_def kind_field_def)
  have "\<exists>w. newWorkout Number d2 now2 s2 = Done (after_submit w ws m s2)
           \<and> get_prop w ''coordinates'' = Arr [Num (lat e), Num (lng e)]
           \<and> get_prop w ''id'' = Str (slice_last10 (toString_int now2))
           \<and> get_prop w ''type'' = Str (inputType s2)"
    using s2 assms(7,8) by (intro newWorkout_valid) simp_all
  then show ?thesis
    using assms(1) by (auto simp add: first alert_def after_submit_fields)
qed

theorem C9_coordinate_kept_after_rejection_witness:
  "mapEvent (state_of (newWorkout example_Number example_date 1700000000000
       (example_state\<lparr>inputDistance := ''-5''\<rparr>))) = Some \<lparr>lat = Fin 40, lng = Fin (- 73)\<rparr>
   \<and> (\<exists>w. newWorkout example_Number minute_later_date 1700000060000
        ((state_of (newWorkout example_Number example_date 1700000000000
           (example_state\<lparr>inputDistance := ''-5''\<rparr>)))\<lparr>inputType := ''running'',
              inputDistance := ''5'', inputDuration := ''30'', inputCadence := ''178'',
              inputElevation := []\<rparr>) =
          Done (after_submit w []
            \<lparr>center = Arr [Num (Fin 40), Num (Fin (- 73))], zoom = 13, markers = []\<rparr>
            ((state_of (newWorkout example_Number example_date 1700000000000
               (example_state\<lparr>inputDistance := ''-5''\<rparr>)))\<lparr>inputType := ''running'',
              inputDistance := ''5'', inputDuration := ''30'', inputCadence := ''178'',
              inputElevation := []\<rparr>))
        \<and> get_prop w ''coordinates'' = Arr [Num (Fin 40), Num (Fin (- 73))])"
proof -
  let ?bad = "example_state\<lparr>inputDistance := ''-5''\<rparr>"
  let ?e = "\<lparr>lat = Fin 40, lng = Fin (- 73)\<rparr>"
  let ?m = "\<lparr>center = Arr [Num (Fin 40), Num (Fin (- 73))], zoom = 13, markers = []\<rparr>"
  have h: "mapEvent ?bad = Some ?e" "map' ?bad = Some ?m" "workouts ?bad = Arr []"
    "inputType ?bad = ''running'' \<or> inputType ?bad = ''cycling''"
    "spec_fails_validation (inputType ?bad) (example_Number (inputDistance ?bad))
       (example_Number (inputDuration ?bad)) (example_Number (kind_field ?bad))"
    by (simp_all add: example_fields spec_fails_validation_def kind_field_def example_Number_def)
  have k: "''running'' = ''running'' \<or> ''running'' = ''cycling''"
    by simp
  have v: "\<not> spec_fails_validation ''running'' (example_Number ''5'') (example_Number ''30'')
      (example_Number (if ''running'' = ''running'' then ''178'' else []))"
    by (simp add: spec_fails_validation_def example_Number_def)
  show ?thesis
    using C9_coordinate_kept_after_rejection [OF h refl k v,
        of example_date 1700000000000 minute_later_date 1700000060000]
    by (simp add: after_submit_fields)
qed

subsection \<open>Claim C10\<close>

text \<open>
  Claim C10, as stated, fails: with a kind that is neither \<^verbatim>\<open>running\<close> nor
  \<^verbatim>\<open>cycling\<close> the submission appends \<^verbatim>\<open>undefined\<close>, and then
  \<^verbatim>\<open>_renderWorkout\<close> throws on it, so nothing is rendered and nothing is persisted.
\<close>

theorem C10_unknown_kind_counterexample:
  "\<not> is_Done (newWorkout example_Number example_date 1700000000000
        (example_state\<lparr>inputType := ''swimming''\<rparr>))
   \<and> workouts (state_of (newWorkout example_Number example_date 1700000000000
        (example_state\<lparr>inputType := ''swimming''\<rparr>))) = Arr [Undefined]
   \<and> localStorage (state_of (newWorkout example_Number example_date 1700000000000
        (example_state\<lparr>inputType := ''swimming''\<rparr>))) ''workouts'' = None
   \<and> list_items (state_of (newWorkout example_Number example_date 1700000000000
        (example_state\<lparr>inputType := ''swimming''\<rparr>))) = []"
  by (simp add: newWorkout_other_kind [of _ "\<lparr>lat = Fin 40, lng = Fin (- 73)\<rparr>" "[]"]
      example_fields)
    (simp add: example_state_eq)

text \<open>
  Claim C10, amended. After a click on the map, a submission whose kind is neither of the
  two validates nothing and constructs no workout, whatever the fields hold, yet appends
  \<^verbatim>\<open>undefined\<close> to the sequence; the request to render it as a list item then
  throws a TypeError, which ends the listener: no list item and no marker is rendered, the
  form is not cleared and the storage is not written.
\<close>

theorem C10_unknown_kind_appends_then_throws:
  assumes "mapEvent s = Some e" and "workouts s = Arr ws"
    and "inputType s \<noteq> ''running''" and "inputType s \<noteq> ''cycling''"
  shows "newWorkout Number d now s = Threw TypeError (s\<lparr>workouts := Arr (ws @ [Undefined])\<rparr>)
       \<and> workouts (state_of (newWorkout Number d now s)) = Arr (ws @ [Undefined])
       \<and> localStorage (state_of (newWorkout Number d now s)) = localStorage s
       \<and> list_items (state_of (newWorkout Number d now s)) = list_items s
       \<and> map' (state_of (newWorkout Number d now s)) = map' s
       \<and> alerts (state_of (newWorkout Number d now s)) = alerts s
       \<and> form_hidden (state_of (newWorkout Number d now s)) = form_hidden s
       \<and> inputDistance (state_of (newWorkout Number d now s)) = inputDistance s"
  using newWorkout_other_kind [OF assms, of Number d now] by simp

theorem C10_unknown_kind_appends_then_throws_witness:
  "newWorkout example_Number example_date 1700000000000
      (example_state\<lparr>inputType := ''swimming'', inputDistance := ''-5''\<rparr>) =
     Threw TypeError (example_state\<lparr>inputType := ''swimming'', inputDistance := ''-5'',
                        workouts := Arr [Undefined]\<rparr>)"
proof -
  let ?s = "example_state\<lparr>inputType := ''swimming'', inputDistance := ''-5''\<rparr>"
  have h: "mapEvent ?s = Some \<lparr>lat = Fin 40, lng = Fin (- 73)\<rparr>" "workouts ?s = Arr []"
    "inputType ?s \<noteq> ''running''" "inputType ?s \<noteq> ''cycling''"
    by (simp_all add: example_fields)
  show ?thesis
    using C10_unknown_kind_appends_then_throws [OF h, of example_Number example_date 1700000000000]
    by (simp add: example_state_eq)
qed

end
